theory Spec2Isabelle
  imports Main "HOL-Library.Char_ord" "HOL-Library.List_Lexorder" "HOL-Library.AList"
begin

section \<open>Values, strings and JSON serialisation\<close>

text \<open>
  The orchestrator of \<^verbatim>\<open>scl_core.py\<close> passes Python dictionaries around. Their
  JSON-serialisable values are the type \<open>json\<close>; a dictionary is an association list in
  insertion order (its keys are distinct in Python). Strings are lists of code points
  below 256; floating-point numbers are left out.
\<close>

datatype json =
    JNull
  | JBool bool
  | JInt int
  | JStr string
  | JList "json list"
  | JDict "(string \<times> json) list"

text \<open>Python's \<^verbatim>\<open>sep.join(parts)\<close>.\<close>

fun join :: "string \<Rightarrow> string list \<Rightarrow> string" where
  "join sep [] = []"
| "join sep [x] = x"
| "join sep (x # y # ys) = x @ sep @ join sep (y # ys)"

text \<open>Decimal rendering of integers, as \<^verbatim>\<open>str(n)\<close> and \<^verbatim>\<open>f"{n}"\<close> give it.\<close>

definition digit_char :: "nat \<Rightarrow> char" where
  "digit_char d = ''0123456789abcdef'' ! (d mod 16)"

fun show_nat :: "nat \<Rightarrow> string" where
  "show_nat n = (if n < 10 then [digit_char n] else show_nat (n div 10) @ [digit_char (n mod 10)])"

declare show_nat.simps [simp del]

definition show_int :: "int \<Rightarrow> string" where
  "show_int i = (if i < 0 then CHR ''-'' # show_nat (nat (- i)) else show_nat (nat i))"

text \<open>The format specification \<^verbatim>\<open>:03d\<close>: zero padding to width three, the sign first.\<close>

definition zfill :: "nat \<Rightarrow> string \<Rightarrow> string" where
  "zfill w s = replicate (w - length s) CHR ''0'' @ s"

definition fmt_03d :: "int \<Rightarrow> string" where
  "fmt_03d i = (if i < 0 then CHR ''-'' # zfill 2 (show_nat (nat (- i))) else zfill 3 (show_nat (nat i)))"

text \<open>
  \<^verbatim>\<open>json.dumps(obj, sort_keys=True)\<close> with the default separators and
  \<^verbatim>\<open>ensure_ascii=True\<close>: the quote and the backslash are escaped, the control
  characters with a short escape use it, every other character outside the printable
  ASCII range becomes \<^verbatim>\<open>\uXXXX\<close>.
\<close>

definition escape_char :: "char \<Rightarrow> string" where
  "escape_char c =
     (let n = of_char c :: nat in
      if n = 0x22 then [CHR 0x5C, CHR 0x22]
      else if n = 0x5C then [CHR 0x5C, CHR 0x5C]
      else if n = 0x0A then [CHR 0x5C, CHR ''n'']
      else if n = 0x0D then [CHR 0x5C, CHR ''r'']
      else if n = 0x09 then [CHR 0x5C, CHR ''t'']
      else if n = 0x08 then [CHR 0x5C, CHR ''b'']
      else if n = 0x0C then [CHR 0x5C, CHR ''f'']
      else if n < 0x20 \<or> 0x7E < n
        then [CHR 0x5C, CHR ''u'', CHR ''0'', CHR ''0'', digit_char (n div 16), digit_char (n mod 16)]
      else [c])"

definition encode_string :: "string \<Rightarrow> string" where
  "encode_string s = [CHR 0x22] @ concat (map escape_char s) @ [CHR 0x22]"

fun dumps :: "json \<Rightarrow> string" where
  "dumps JNull = ''null''"
| "dumps (JBool b) = (if b then ''true'' else ''false'')"
| "dumps (JInt i) = show_int i"
| "dumps (JStr s) = encode_string s"
| "dumps (JList xs) = ''['' @ join '', '' (map dumps xs) @ '']''"
| "dumps (JDict kvs) =
     ''{'' @ join '', '' (map (\<lambda>kv. encode_string (fst kv) @ '': '' @ dumps (snd kv))
                              (sort_key fst kvs)) @ ''}''"

section \<open>Data model of \<^verbatim>\<open>scl_core.py\<close>\<close>

datatype ModuleType = RETRIEVAL | COGNITION | CONTROL | ACTION | MEMORY

fun module_value :: "ModuleType \<Rightarrow> string" where
  "module_value RETRIEVAL = ''Retrieval''"
| "module_value COGNITION = ''Cognition''"
| "module_value CONTROL = ''Control''"
| "module_value ACTION = ''Action''"
| "module_value MEMORY = ''Memory''"

text \<open>
  Exceptions are values. Every constructor is a subclass of Python's \<^verbatim>\<open>Exception\<close>
  and carries the text that \<^verbatim>\<open>str(e)\<close> returns.
\<close>

datatype error =
    AttributeError string
  | TypeError string
  | ValueError string
  | Exception string

fun str_of_error :: "error \<Rightarrow> string" where
  "str_of_error (AttributeError m) = m"
| "str_of_error (TypeError m) = m"
| "str_of_error (ValueError m) = m"
| "str_of_error (Exception m) = m"

text \<open>The plan that \<^verbatim>\<open>retrieval\<close> builds, and its form as a stored value.\<close>

record plan =
  evidence_needed :: "string list"
  base_temperature :: int
  conditions_parsed :: bool
  tools_required :: "string list"

definition plan_json :: "plan \<Rightarrow> json" where
  "plan_json p = JDict
     [(''evidence_needed'', JList (map JStr (evidence_needed p))),
      (''base_temperature'', JInt (base_temperature p)),
      (''conditions_parsed'', JBool (conditions_parsed p)),
      (''tools_required'', JList (map JStr (tools_required p)))]"

text \<open>
  The response of the cognition engine. \<open>proposed_action\<close> distinguishes a response
  without the key (\<open>NoKey\<close>), one that binds it to \<^verbatim>\<open>None\<close> (\<open>PyNone\<close>) and one
  that binds it to a dictionary. In the dictionary \<open>tool_name\<close> is \<open>None\<close> when the
  key is missing or bound to \<^verbatim>\<open>None\<close>, and \<open>parameters\<close> is \<open>None\<close> when the key is
  missing (a key bound to \<^verbatim>\<open>None\<close> is \<open>Some JNull\<close>). \<open>is_final_action\<close> and
  \<open>control_validated\<close> are the truth values of the \<^verbatim>\<open>.get(...)\<close> of the two keys.
  The remaining keys of the response, which the orchestrator only prints and logs, are
  in \<open>extras\<close>; the free reasoning text is not modelled.
\<close>

record action_desc =
  tool_name :: "string option"
  parameters :: "json option"

datatype proposed = NoKey | PyNone | Action action_desc

record proposal =
  proposed_action :: proposed
  evidence_refs :: "string list option"
  is_final_action :: bool
  control_validated :: bool
  extras :: "(string \<times> json) list"

record run_context =
  task :: string
  retrieval_plan :: plan
  status :: string
  last_rejection :: "string option"
  last_action_result :: "json option"

text \<open>
  \<^verbatim>\<open>LoopTrace\<close>. The input and output dictionaries have one shape per stage; the
  timestamp is a wall-clock reading and is not modelled.
\<close>

datatype snapshot =
    TaskSnap string
  | PlanSnap plan
  | ContextSnap run_context
  | ProposalSnap proposal
  | VerdictSnap bool string
  | ActionSnap action_desc
  | ResultSnap json string

record LoopTrace =
  loop_id :: string
  module :: string
  input_state :: snapshot
  output_state :: snapshot
  decision :: "string option"
  validation_result :: "bool option"
  trace_evidence_refs :: "string list option"

subsection \<open>MetaPrompt\<close>

record rules =
  must_cite_stored_evidence :: bool
  no_final_answer_without_control_pass :: bool
  single_final_action :: bool
  avoid_redundant_tool_calls :: bool
  validate_conditional_branches :: bool

record MetaPrompt =
  rules :: rules
  instructions :: string

definition rule_names :: "string list" where
  "rule_names = [''must_cite_stored_evidence'', ''no_final_answer_without_control_pass'',
     ''single_final_action'', ''avoid_redundant_tool_calls'', ''validate_conditional_branches'']"

definition instructions_text :: string where
  "instructions_text = concat (map (\<lambda>l. l @ [CHR 0x0A])
     [[],
      ''        You are operating under Soft Symbolic Control within a Structured Cognitive Loop.'',
      ''        '',
      ''        MANDATORY CONSTRAINTS:'',
      ''        1. Always consult Memory before proposing actions'',
      ''        2. Cite evidence from Retrieval/Memory in all reasoning'',
      ''        3. Never execute final actions without Control validation'',
      ''        4. Apply conditional logic exactly as specified'',
      ''        5. Avoid redundant tool calls by checking Memory first'',
      ''        '',
      ''        REASONING PROTOCOL:'',
      ''        - State current goal explicitly'',
      ''        - Reference stored evidence by ID'',
      ''        - Propose action with clear rationale'',
      ''        - Wait for Control validation before execution'']) @ ''        ''"

definition MetaPrompt_init :: MetaPrompt where
  "MetaPrompt_init =
     \<lparr>rules = \<lparr>must_cite_stored_evidence = True, no_final_answer_without_control_pass = True,
                single_final_action = True, avoid_redundant_tool_calls = True,
                validate_conditional_branches = True\<rparr>,
      instructions = instructions_text\<rparr>"

text \<open>The truth value of a cited-evidence entry: a missing key and an empty list are false.\<close>

fun truthy_refs :: "string list option \<Rightarrow> bool" where
  "truthy_refs None = False"
| "truthy_refs (Some xs) = (xs \<noteq> [])"

definition issues :: "MetaPrompt \<Rightarrow> proposal \<Rightarrow> string list" where
  "issues mp cognition_output =
     (if must_cite_stored_evidence (rules mp) \<and> \<not> truthy_refs (evidence_refs cognition_output)
      then [''Missing evidence citations''] else [])
     @ (if is_final_action cognition_output \<and> \<not> control_validated cognition_output
        then [''Final action without Control validation''] else [])"

definition validate :: "MetaPrompt \<Rightarrow> proposal \<Rightarrow> bool \<times> string" where
  "validate mp cognition_output =
     (let iss = issues mp cognition_output;
          is_valid = (length iss = 0);
          message = (if is_valid then ''PASS'' else ''VIOLATIONS: '' @ join ''; '' iss)
      in (is_valid, message))"

subsection \<open>Memory\<close>

record entry =
  entry_value :: json
  evidence_id :: "string option"

record Memory =
  store :: "(string \<times> entry) list"
  history :: "LoopTrace list"
  evidence_cache :: "(string \<times> json) list"

record state_summary =
  stored_values :: "(string \<times> json) list"
  available_evidence :: "string list"
  loop_count :: nat

definition Memory_init :: Memory where
  "Memory_init = \<lparr>store = [], history = [], evidence_cache = []\<rparr>"

definition mem_write :: "string \<Rightarrow> json \<Rightarrow> string option \<Rightarrow> Memory \<Rightarrow> Memory" where
  "mem_write key v eid m =
     m\<lparr>store := AList.update key \<lparr>entry_value = v, evidence_id = eid\<rparr> (store m)\<rparr>"

definition read :: "string \<Rightarrow> Memory \<Rightarrow> json option" where
  "read key m = map_option entry_value (map_of (store m) key)"

definition has_evidence :: "string \<Rightarrow> Memory \<Rightarrow> bool" where
  "has_evidence eid m = (eid \<in> set (map fst (evidence_cache m)))"

text \<open>\<^verbatim>\<open>store_evidence\<close> is a plain dictionary assignment and returns nothing.\<close>

definition store_evidence :: "string \<Rightarrow> json \<Rightarrow> Memory \<Rightarrow> Memory" where
  "store_evidence eid data m = m\<lparr>evidence_cache := AList.update eid data (evidence_cache m)\<rparr>"

definition get_evidence :: "string \<Rightarrow> Memory \<Rightarrow> json option" where
  "get_evidence eid m = map_of (evidence_cache m) eid"

definition log_trace :: "LoopTrace \<Rightarrow> Memory \<Rightarrow> Memory" where
  "log_trace t m = m\<lparr>history := history m @ [t]\<rparr>"

definition get_state_summary :: "Memory \<Rightarrow> state_summary" where
  "get_state_summary m =
     \<lparr>stored_values = map (\<lambda>kv. (fst kv, entry_value (snd kv))) (store m),
      available_evidence = map fst (evidence_cache m),
      loop_count = length (history m)\<rparr>"

subsection \<open>ToolRegistry\<close>

text \<open>
  A tool is a Python callable: it may read and change state outside the orchestrator
  (a random generator, a mail server) and may raise. The type \<open>'w\<close> is that outside
  state; it also holds the attributes of the cognition engine.
\<close>

type_synonym 'w tool = "(string \<times> json) list \<Rightarrow> 'w \<Rightarrow> (error + json) \<times> 'w"

record 'w tool_entry =
  tool_function :: "'w tool"
  description :: string
  name :: string

type_synonym 'w ToolRegistry = "(string \<times> 'w tool_entry) list"

definition register :: "string \<Rightarrow> 'w tool \<Rightarrow> string \<Rightarrow> 'w ToolRegistry \<Rightarrow> 'w ToolRegistry" where
  "register n func descr reg =
     AList.update n \<lparr>tool_function = func, description = descr, name = n\<rparr> reg"

definition get_tool_descriptions :: "'w ToolRegistry \<Rightarrow> (string \<times> string) list" where
  "get_tool_descriptions reg = map (\<lambda>kt. (name (snd kt), description (snd kt))) reg"

definition execute :: "'w ToolRegistry \<Rightarrow> string \<Rightarrow> (string \<times> json) list \<Rightarrow> 'w \<Rightarrow> (error + json) \<times> 'w" where
  "execute reg tn kwargs w =
     (case map_of reg tn of
        None \<Rightarrow> (Inl (ValueError (''Tool '' @ [CHR 0x27] @ tn @ [CHR 0x27] @ '' not registered'')), w)
      | Some t \<Rightarrow> tool_function t kwargs w)"

text \<open>
  The call \<^verbatim>\<open>self.tools.execute(tool_name, **parameters)\<close>: unpacking needs a
  dictionary, and a key that names one of the two positional parameters of
  \<^verbatim>\<open>execute\<close> is a second value for it. Both failures are a \<^verbatim>\<open>TypeError\<close>
  of the interpreter, raised before \<^verbatim>\<open>execute\<close> runs.
\<close>

fun type_name :: "json \<Rightarrow> string" where
  "type_name JNull = ''NoneType''"
| "type_name (JBool _) = ''bool''"
| "type_name (JInt _) = ''int''"
| "type_name (JStr _) = ''str''"
| "type_name (JList _) = ''list''"
| "type_name (JDict _) = ''dict''"

definition call_execute :: "'w ToolRegistry \<Rightarrow> string \<Rightarrow> json \<Rightarrow> 'w \<Rightarrow> (error + json) \<times> 'w" where
  "call_execute reg tn params w =
     (case params of
        JDict kvs \<Rightarrow>
          (case filter (\<lambda>k. k = ''self'' \<or> k = ''tool_name'') (map fst kvs) of
             [] \<Rightarrow> execute reg tn kvs w
           | k # _ \<Rightarrow> (Inl (TypeError (''ToolRegistry.execute() got multiple values for argument ''
                                         @ [CHR 0x27] @ k @ [CHR 0x27])), w))
      | v \<Rightarrow> (Inl (TypeError (''ToolRegistry.execute() argument after ** must be a mapping, not ''
                               @ type_name v)), w))"

subsection \<open>StructuredCognitiveLoop\<close>

text \<open>
  The prompt handed to the engine is a text that interpolates the instructions, the
  state summary, the tool descriptions and the context; the model hands over the four
  parts themselves.
\<close>

record prompt =
  prompt_instructions :: string
  prompt_state :: state_summary
  prompt_tools :: "(string \<times> string) list"
  prompt_context :: run_context

type_synonym 'w engine = "prompt \<Rightarrow> run_context \<Rightarrow> 'w \<Rightarrow> (error + proposal) \<times> 'w"

record 'w StructuredCognitiveLoop =
  cognition_engine :: "'w engine"
  tools :: "'w ToolRegistry"
  metaprompt :: MetaPrompt
  memory :: Memory
  max_loops :: int
  loop_counter :: int
  world :: 'w

definition StructuredCognitiveLoop_init ::
  "'w engine \<Rightarrow> 'w ToolRegistry \<Rightarrow> MetaPrompt option \<Rightarrow> int \<Rightarrow> 'w \<Rightarrow> 'w StructuredCognitiveLoop" where
  "StructuredCognitiveLoop_init eng reg mp ceiling w =
     \<lparr>cognition_engine = eng,
      tools = reg,
      metaprompt = (case mp of Some m \<Rightarrow> m | None \<Rightarrow> MetaPrompt_init),
      memory = Memory_init,
      max_loops = ceiling,
      loop_counter = 0,
      world = w\<rparr>"

definition retrieval_plan_of_task :: plan where
  "retrieval_plan_of_task =
     \<lparr>evidence_needed = [''SF_weather'', ''Miami_weather'', ''Atlanta_weather''],
      base_temperature = 55,
      conditions_parsed = True,
      tools_required = [''get_weather'', ''send_email'', ''generate_image'', ''cancel_trip'']\<rparr>"

definition retrieval :: "'w StructuredCognitiveLoop \<Rightarrow> string \<Rightarrow> plan \<times> 'w StructuredCognitiveLoop" where
  "retrieval s tsk =
     (let pl = retrieval_plan_of_task;
          m1 = mem_write ''task'' (JStr tsk) None (memory s);
          m2 = mem_write ''retrieval_plan'' (plan_json pl) None m1;
          trace = \<lparr>loop_id = ''R-001'', module = module_value RETRIEVAL,
                   input_state = TaskSnap tsk, output_state = PlanSnap pl,
                   decision = None, validation_result = None, trace_evidence_refs = None\<rparr>
      in (pl, s\<lparr>memory := log_trace trace m2\<rparr>))"

definition cognition ::
  "'w StructuredCognitiveLoop \<Rightarrow> run_context \<Rightarrow> error + (proposal \<times> 'w StructuredCognitiveLoop)" where
  "cognition s ctx =
     (let s1 = s\<lparr>loop_counter := loop_counter s + 1\<rparr>;
          lid = ''CCAM-'' @ fmt_03d (loop_counter s1);
          cognition_prompt =
            \<lparr>prompt_instructions = instructions (metaprompt s1),
             prompt_state = get_state_summary (memory s1),
             prompt_tools = get_tool_descriptions (tools s1),
             prompt_context = ctx\<rparr>
      in case cognition_engine s1 cognition_prompt ctx (world s1) of
           (Inl e, w') \<Rightarrow> Inl e
         | (Inr response, w') \<Rightarrow>
             (let trace = \<lparr>loop_id = lid, module = module_value COGNITION,
                            input_state = ContextSnap ctx, output_state = ProposalSnap response,
                            decision = None, validation_result = None,
                            trace_evidence_refs = evidence_refs response\<rparr>
              in Inr (response, s1\<lparr>world := w', memory := log_trace trace (memory s1)\<rparr>)))"

definition make_evidence_id :: "string \<Rightarrow> json \<Rightarrow> string" where
  "make_evidence_id tn params = ''evidence_'' @ tn @ ''_'' @ dumps params"

text \<open>\<^verbatim>\<open>proposed_action.get("parameters", {})\<close>.\<close>

definition get_parameters :: "action_desc \<Rightarrow> json" where
  "get_parameters a = (case parameters a of None \<Rightarrow> JDict [] | Some p \<Rightarrow> p)"

definition none_has_no_get :: error where
  "none_has_no_get = AttributeError ([CHR 0x27] @ ''NoneType'' @ [CHR 0x27]
     @ '' object has no attribute '' @ [CHR 0x27] @ ''get'' @ [CHR 0x27])"

text \<open>
  \<^verbatim>\<open>cognition_output.get("proposed_action", {})\<close> followed by the first
  \<^verbatim>\<open>.get\<close> on the result, which fails on \<^verbatim>\<open>None\<close>.
\<close>

fun get_proposed_action :: "proposed \<Rightarrow> error + action_desc" where
  "get_proposed_action NoKey = Inr \<lparr>tool_name = None, parameters = None\<rparr>"
| "get_proposed_action PyNone = Inl none_has_no_get"
| "get_proposed_action (Action a) = Inr a"

definition redundant_message :: string where
  "redundant_message = ''REJECTED: Redundant tool call (evidence already in Memory)''"

text \<open>
  \<^verbatim>\<open>control\<close> changes the dictionary it is given (the validated flag), and
  \<^verbatim>\<open>run\<close> goes on with the changed dictionary: the model returns it.
\<close>

definition control ::
  "'w StructuredCognitiveLoop \<Rightarrow> proposal \<Rightarrow>
     error + ((bool \<times> string) \<times> proposal \<times> 'w StructuredCognitiveLoop)" where
  "control s cognition_output0 =
     (let cognition_output =
            (if is_final_action cognition_output0
             then cognition_output0\<lparr>control_validated := True\<rparr> else cognition_output0);
          (is_valid0, message0) = validate (metaprompt s) cognition_output
      in case get_proposed_action (proposed_action cognition_output) of
           Inl e \<Rightarrow> Inl e
         | Inr a \<Rightarrow>
             (let (is_valid, message) =
                    (case tool_name a of
                       None \<Rightarrow> (is_valid0, message0)
                     | Some tn \<Rightarrow>
                         if tn \<noteq> [] \<and> has_evidence (make_evidence_id tn (get_parameters a)) (memory s)
                         then (False, redundant_message)
                         else (is_valid0, message0));
                  trace = \<lparr>loop_id = ''CTL-'' @ fmt_03d (loop_counter s),
                           module = module_value CONTROL,
                           input_state = ProposalSnap cognition_output,
                           output_state = VerdictSnap is_valid message,
                           decision = None, validation_result = Some is_valid,
                           trace_evidence_refs = None\<rparr>
              in Inr ((is_valid, message), cognition_output,
                      s\<lparr>memory := log_trace trace (memory s)\<rparr>)))"

definition no_action_result :: json where
  "no_action_result = JDict [(''status'', JStr ''no_action''), (''result'', JNull)]"

definition error_result :: "error \<Rightarrow> json" where
  "error_result e =
     JDict [(''status'', JStr ''error''),
            (''message'', JStr (''Action execution failed: '' @ str_of_error e))]"

text \<open>
  \<^verbatim>\<open>action\<close>. The lookups before the \<^verbatim>\<open>try\<close> can fail on a
  \<^verbatim>\<open>None\<close> descriptor, and that error leaves the function. Inside the
  \<^verbatim>\<open>try\<close> every error of the call is caught: the state of the orchestrator is
  then as before the call, the outside state is as the tool left it.
\<close>

definition action ::
  "'w StructuredCognitiveLoop \<Rightarrow> proposal \<Rightarrow> error + (json \<times> 'w StructuredCognitiveLoop)" where
  "action s cognition_output =
     (case get_proposed_action (proposed_action cognition_output) of
        Inl e \<Rightarrow> Inl e
      | Inr a \<Rightarrow>
          (case tool_name a of
             None \<Rightarrow> Inr (no_action_result, s)
           | Some tn \<Rightarrow>
               if tn = [] then Inr (no_action_result, s)
               else
                 (case call_execute (tools s) tn (get_parameters a) (world s) of
                    (Inl e, w') \<Rightarrow> Inr (error_result e, s\<lparr>world := w'\<rparr>)
                  | (Inr result, w') \<Rightarrow>
                      (let eid = make_evidence_id tn (get_parameters a);
                           m1 = store_evidence eid result (memory s);
                           trace = \<lparr>loop_id = ''ACT-'' @ fmt_03d (loop_counter s),
                                    module = module_value ACTION,
                                    input_state = ActionSnap a,
                                    output_state = ResultSnap result eid,
                                    decision = None, validation_result = None,
                                    trace_evidence_refs = None\<rparr>
                       in Inr (result, s\<lparr>world := w', memory := log_trace trace m1\<rparr>)))))"

section \<open>The decision of \<^verbatim>\<open>MockCognitionEngine\<close>\<close>

text \<open>
  A collected weather record is a result of the weather tool that carries a
  temperature. \<open>precipitation_chance\<close> is read with a default, so it may be missing.
\<close>

record weather =
  city :: string
  temperature_f :: int
  condition :: string
  precipitation_chance :: "int option"

text \<open>
  Python's \<^verbatim>\<open>min(xs, key=f)\<close>: the first element with the least key; a
  \<^verbatim>\<open>ValueError\<close> on the empty list.
\<close>

fun min_by :: "('a \<Rightarrow> int) \<Rightarrow> 'a list \<Rightarrow> error + 'a" where
  "min_by f [] = Inl (ValueError ''min() iterable argument is empty'')"
| "min_by f (x # xs) = Inr (fold (\<lambda>y m. if f y < f m then y else m) xs x)"

definition umbrella_needed :: "weather \<Rightarrow> bool" where
  "umbrella_needed w = ((case precipitation_chance w of None \<Rightarrow> 0 | Some c \<Rightarrow> c) > 30)"

definition umbrella_text :: "weather \<Rightarrow> string" where
  "umbrella_text w = (if umbrella_needed w then ''Bring umbrella'' else ''No umbrella needed'')"

definition degrees_f :: "int \<Rightarrow> string" where
  "degrees_f t = show_int t @ [CHR 0xB0, CHR ''F'']"

definition weather_refs :: "string list" where
  "weather_refs = [''weather_sf'', ''weather_miami'', ''weather_atlanta'']"

definition generate_decision :: "weather list \<Rightarrow> int \<Rightarrow> error + proposal" where
  "generate_decision weather_data base_temp =
     (if length weather_data < 3 then
        Inr \<lparr>proposed_action = PyNone, evidence_refs = Some [], is_final_action = False,
             control_validated = False, extras = []\<rparr>
      else
        (let above_threshold = filter (\<lambda>w. temperature_f w > base_temp) weather_data in
         if length above_threshold = 3 then
           (case min_by temperature_f above_threshold of
              Inl e \<Rightarrow> Inl e
            | Inr coolest \<Rightarrow>
                Inr \<lparr>proposed_action = Action
                       \<lparr>tool_name = Some ''generate_image'',
                        parameters = Some (JDict
                          [(''description'', JStr (city coolest @ '' weather: '' @ condition coolest
                              @ '', '' @ degrees_f (temperature_f coolest)))])\<rparr>,
                     evidence_refs = Some weather_refs,
                     is_final_action = True,
                     control_validated = False,
                     extras = [(''decision_branch'', JStr ''all_above_threshold''),
                               (''destination'', JStr (city coolest)),
                               (''umbrella_needed'', JBool (umbrella_needed coolest))]\<rparr>)
         else if length above_threshold = 2 then
           (case min_by temperature_f above_threshold of
              Inl e \<Rightarrow> Inl e
            | Inr cooler \<Rightarrow>
                Inr \<lparr>proposed_action = Action
                       \<lparr>tool_name = Some ''send_email'',
                        parameters = Some (JDict
                          [(''recipient'', JStr ''test-scl@test.com''),
                           (''subject'', JStr (''Travel Plan Confirmed: '' @ city cooler)),
                           (''body'', JStr (''Based on weather analysis, traveling to '' @ city cooler
                              @ ''. Temperature: '' @ degrees_f (temperature_f cooler)
                              @ '', Condition: '' @ condition cooler @ ''. ''
                              @ umbrella_text cooler @ ''.''))])\<rparr>,
                     evidence_refs = Some weather_refs,
                     is_final_action = True,
                     control_validated = False,
                     extras = [(''decision_branch'', JStr ''two_above_threshold''),
                               (''destination'', JStr (city cooler)),
                               (''umbrella_needed'', JBool (umbrella_needed cooler))]\<rparr>)
         else if length above_threshold = 1 then
           (case above_threshold of
              [] \<Rightarrow> Inl (Exception ''list index out of range'')
            | destination # _ \<Rightarrow>
                Inr \<lparr>proposed_action = Action
                       \<lparr>tool_name = Some ''send_email'',
                        parameters = Some (JDict
                          [(''recipient'', JStr ''test-scl@test.com''),
                           (''subject'', JStr (''Travel Plan: '' @ city destination)),
                           (''body'', JStr (''Traveling to '' @ city destination
                              @ ''. Temperature: '' @ degrees_f (temperature_f destination)
                              @ ''. '' @ umbrella_text destination @ ''.''))])\<rparr>,
                     evidence_refs = Some weather_refs,
                     is_final_action = True,
                     control_validated = False,
                     extras = [(''decision_branch'', JStr ''one_above_threshold''),
                               (''destination'', JStr (city destination)),
                               (''umbrella_needed'', JBool (umbrella_needed destination))]\<rparr>)
         else
           Inr \<lparr>proposed_action = Action
                  \<lparr>tool_name = Some ''cancel_trip'',
                   parameters = Some (JDict
                     [(''reason'', JStr ''All destinations below comfortable temperature threshold'')])\<rparr>,
                evidence_refs = Some weather_refs,
                is_final_action = False,
                control_validated = False,
                extras = [(''decision_branch'', JStr ''all_below_threshold'')]\<rparr>))"

subsection \<open>The loop of \<^verbatim>\<open>run\<close>\<close>

text \<open>
  One pass through the body of the \<^verbatim>\<open>while\<close> loop of \<^verbatim>\<open>run\<close>. It ends
  with \<^verbatim>\<open>continue\<close> after a rejection, with \<^verbatim>\<open>break\<close> after the action of a
  final proposal (where the completion banner is printed), or at the end of the body;
  \<open>Continue\<close> carries the context for the next pass.
\<close>

datatype step = Continue run_context | Break

definition loop_body ::
  "'w StructuredCognitiveLoop \<Rightarrow> run_context \<Rightarrow> error + (step \<times> 'w StructuredCognitiveLoop)" where
  "loop_body s ctx =
     (case cognition s ctx of
        Inl e \<Rightarrow> Inl e
      | Inr (cognition_output0, s1) \<Rightarrow>
          (case control s1 cognition_output0 of
             Inl e \<Rightarrow> Inl e
           | Inr ((is_valid, validation_msg), cognition_output, s2) \<Rightarrow>
               if \<not> is_valid
               then Inr (Continue (ctx\<lparr>last_rejection := Some validation_msg\<rparr>), s2)
               else
                 (case action s2 cognition_output of
                    Inl e \<Rightarrow> Inl e
                  | Inr (action_result, s3) \<Rightarrow>
                      if is_final_action cognition_output
                      then Inr (Break, s3)
                      else Inr (Continue (ctx\<lparr>last_action_result := Some action_result\<rparr>), s3))))"

lemma cognition_counter:
  "cognition s ctx = Inr (p, s1) \<Longrightarrow>
     loop_counter s1 = loop_counter s + 1 \<and> max_loops s1 = max_loops s"
  by (auto simp: cognition_def Let_def split: prod.splits sum.splits)

lemma control_counter:
  "control s p = Inr (v, p', s1) \<Longrightarrow>
     loop_counter s1 = loop_counter s \<and> max_loops s1 = max_loops s"
  by (auto simp: control_def Let_def split: prod.splits sum.splits option.splits if_splits)

lemma action_counter:
  "action s p = Inr (r, s1) \<Longrightarrow>
     loop_counter s1 = loop_counter s \<and> max_loops s1 = max_loops s"
  by (auto simp: action_def Let_def split: prod.splits sum.splits option.splits if_splits)

lemma loop_body_counter:
  "loop_body s ctx = Inr (st, s') \<Longrightarrow>
     loop_counter s' = loop_counter s + 1 \<and> max_loops s' = max_loops s"
  by (auto simp: loop_body_def split: sum.splits prod.splits if_splits
           dest!: cognition_counter control_counter action_counter)

text \<open>
  The loop is left either through the \<^verbatim>\<open>break\<close> (\<open>Completed\<close>) or because its
  condition fails (\<open>Exhausted\<close>).
\<close>

datatype loop_exit = Completed | Exhausted

function run_loop ::
  "'w StructuredCognitiveLoop \<Rightarrow> run_context \<Rightarrow> error + (loop_exit \<times> 'w StructuredCognitiveLoop)" where
  "run_loop s ctx =
     (if loop_counter s < max_loops s then
        (case loop_body s ctx of
           Inl e \<Rightarrow> Inl e
         | Inr (Break, s') \<Rightarrow> Inr (Completed, s')
         | Inr (Continue ctx', s') \<Rightarrow> run_loop s' ctx')
      else Inr (Exhausted, s))"
  by pat_completeness auto
termination
  apply (relation "measure (\<lambda>(s, ctx). nat (max_loops s - loop_counter s))")
   apply simp
  apply (auto dest!: loop_body_counter)
  done

declare run_loop.simps [simp del]

text \<open>
  The first \<open>n\<close> passes through the loop body from a given state, as long as none of
  them leaves the loop.
\<close>

fun passes ::
  "nat \<Rightarrow> 'w StructuredCognitiveLoop \<Rightarrow> run_context \<Rightarrow> (run_context \<times> 'w StructuredCognitiveLoop) option" where
  "passes 0 s ctx = Some (ctx, s)"
| "passes (Suc n) s ctx =
     (if loop_counter s < max_loops s then
        (case loop_body s ctx of
           Inr (Continue ctx', s') \<Rightarrow> passes n s' ctx'
         | _ \<Rightarrow> None)
      else None)"

subsection \<open>The audit report\<close>

record summary =
  total_loops :: int
  policy_violations :: nat
  final_state :: state_summary

record report =
  report_task :: "json option"
  policies :: "string list"
  log :: "LoopTrace list"
  report_summary :: summary

definition generate_audit_report :: "'w StructuredCognitiveLoop \<Rightarrow> report" where
  "generate_audit_report s =
     \<lparr>report_task = read ''task'' (memory s),
      policies = rule_names,
      log = history (memory s),
      report_summary =
        \<lparr>total_loops = loop_counter s,
         policy_violations = length (filter (\<lambda>t. validation_result t = Some False) (history (memory s))),
         final_state = get_state_summary (memory s)\<rparr>\<rparr>"

text \<open>
  \<^verbatim>\<open>run\<close> returns the report; the model adds how the loop was left and the final
  state of the orchestrator.
\<close>

definition run ::
  "'w StructuredCognitiveLoop \<Rightarrow> string \<Rightarrow> error + (loop_exit \<times> report \<times> 'w StructuredCognitiveLoop)" where
  "run s tsk =
     (let (retrieval_result, s1) = retrieval s tsk;
          ctx = \<lparr>task = tsk, retrieval_plan = retrieval_result, status = ''in_progress'',
                 last_rejection = None, last_action_result = None\<rparr>
      in case run_loop s1 ctx of
           Inl e \<Rightarrow> Inl e
         | Inr (ex, s2) \<Rightarrow> Inr (ex, generate_audit_report s2, s2))"

section \<open>Sample collaborators\<close>

text \<open>
  A small tool registry and a decision-maker, used to instantiate the theorems below.
  Their outside state is trivial.
\<close>

definition echo_tool :: "unit tool" where
  "echo_tool kwargs w = (Inr (JDict kwargs), w)"

definition failing_tool :: "unit tool" where
  "failing_tool kwargs w = (Inl (Exception ''service unavailable''), w)"

definition sample_registry :: "unit ToolRegistry" where
  "sample_registry =
     register ''fail'' failing_tool ''always raises''
       (register ''echo'' echo_tool ''returns its parameters'' [])"

definition uncited_proposal :: proposal where
  "uncited_proposal =
     \<lparr>proposed_action = NoKey, evidence_refs = None, is_final_action = False,
      control_validated = False, extras = []\<rparr>"

definition stubborn_engine :: "unit engine" where
  "stubborn_engine pr ctx w = (Inr uncited_proposal, w)"

definition sample_loop :: "int \<Rightarrow> unit StructuredCognitiveLoop" where
  "sample_loop ceiling = StructuredCognitiveLoop_init stubborn_engine sample_registry None ceiling ()"

definition tool_proposal :: "string \<Rightarrow> json \<Rightarrow> bool \<Rightarrow> proposal" where
  "tool_proposal tn params final =
     \<lparr>proposed_action = Action \<lparr>tool_name = Some tn, parameters = Some params\<rparr>,
      evidence_refs = Some [''retrieval_plan''], is_final_action = final,
      control_validated = False, extras = []\<rparr>"

text \<open>
  A decision-maker that proposes the same tool call again, with the parameters in another
  insertion order, and a context as \<^verbatim>\<open>run\<close> builds it.
\<close>

definition insistent_engine :: "unit engine" where
  "insistent_engine pr ctx w =
     (Inr (tool_proposal ''echo'' (JDict [(''units'', JStr ''F''), (''city'', JStr ''Miami'')]) False), w)"

definition insistent_loop :: "int \<Rightarrow> unit StructuredCognitiveLoop" where
  "insistent_loop ceiling =
     StructuredCognitiveLoop_init insistent_engine sample_registry None ceiling ()"

definition sample_context :: run_context where
  "sample_context =
     \<lparr>task = ''plan a trip'', retrieval_plan = retrieval_plan_of_task, status = ''in_progress'',
      last_rejection = None, last_action_result = None\<rparr>"

text \<open>The number of Cognition-stage trace records in a log.\<close>

definition cognition_count :: "LoopTrace list \<Rightarrow> nat" where
  "cognition_count h = length (filter (\<lambda>t. module t = module_value COGNITION) h)"

section \<open>Properties\<close>

subsection \<open>Auxiliary facts\<close>

lemma same_keys_same_items:
  "map fst xs = map fst ys \<Longrightarrow> distinct (map fst xs) \<Longrightarrow> set xs = set ys \<Longrightarrow> xs = ys"
  by (metis (mono_tags, lifting) eq_key_imp_eq_value list.inj_map_strong surjective_pairing)

lemma sort_key_items:
  assumes "distinct (map fst p)" "distinct (map fst q)" "set p = set q"
  shows "sort_key fst p = sort_key fst q"
proof -
  have "map fst (sort_key fst p) = map fst (sort_key fst q)"
  proof (rule sorted_distinct_set_unique)
    show "sorted (map fst (sort_key fst p))" "sorted (map fst (sort_key fst q))"
      by simp_all
    show "distinct (map fst (sort_key fst p))" using assms(1) by (simp add: distinct_map)
    show "distinct (map fst (sort_key fst q))" using assms(2) by (simp add: distinct_map)
    show "set (map fst (sort_key fst p)) = set (map fst (sort_key fst q))"
      using assms(3) by simp
  qed
  moreover have "distinct (map fst (sort_key fst p))" using assms(1) by (simp add: distinct_map)
  moreover have "set (sort_key fst p) = set (sort_key fst q)" using assms(3) by simp
  ultimately show ?thesis by (rule same_keys_same_items)
qed

lemma evidence_id_of_equal_dicts:
  assumes "distinct (map fst p)" and "distinct (map fst q)" and "map_of p = map_of q"
  shows "make_evidence_id tn (JDict p) = make_evidence_id tn (JDict q)"
proof -
  have "set p = set q" using assms by (simp add: map_of_inject_set)
  then have "sort_key fst p = sort_key fst q" using assms(1,2) by (rule sort_key_items[rotated 2])
  then show ?thesis by (simp add: make_evidence_id_def)
qed

lemma show_int_60: "show_int 60 = ''60''"
  by code_simp

lemma fmt_03d_small:
  "fmt_03d 0 = ''000''" "fmt_03d 1 = ''001''"
  by code_simp+

lemma sample_registry_lookup:
  "map_of sample_registry ''echo'' =
     Some \<lparr>tool_function = echo_tool, description = ''returns its parameters'', name = ''echo''\<rparr>"
  "map_of sample_registry ''fail'' =
     Some \<lparr>tool_function = failing_tool, description = ''always raises'', name = ''fail''\<rparr>"
  "map_of sample_registry ''missing'' = None"
  by (simp_all add: sample_registry_def register_def)

lemma log_trace_fields [simp]:
  "history (log_trace t m) = history m @ [t]"
  "store (log_trace t m) = store m"
  "evidence_cache (log_trace t m) = evidence_cache m"
  "has_evidence e (log_trace t m) = has_evidence e m"
  by (simp_all add: log_trace_def has_evidence_def)

lemma store_evidence_fields [simp]:
  "history (store_evidence k v m) = history m"
  "store (store_evidence k v m) = store m"
  "get_evidence k (store_evidence k v m) = Some v"
  "has_evidence k (store_evidence k v m)"
  "has_evidence e m \<Longrightarrow> has_evidence e (store_evidence k v m)"
  by (simp_all add: store_evidence_def has_evidence_def get_evidence_def update_conv' update_keys)

lemma cognition_effect:
  assumes "cognition s ctx = Inr (p, s1)"
  shows "(\<exists>t. history (memory s1) = history (memory s) @ [t] \<and> module t = ''Cognition'')
           \<and> (\<forall>e. has_evidence e (memory s1) = has_evidence e (memory s))
           \<and> evidence_cache (memory s1) = evidence_cache (memory s)
           \<and> store (memory s1) = store (memory s)
           \<and> metaprompt s1 = metaprompt s \<and> tools s1 = tools s
           \<and> cognition_engine s1 = cognition_engine s"
  using assms
  by (auto simp: cognition_def Let_def split: prod.splits sum.splits)

lemma control_effect:
  assumes "control s p = Inr ((ok, msg), p', s1)"
  shows "(\<exists>t. history (memory s1) = history (memory s) @ [t] \<and> module t = ''Control''
               \<and> validation_result t = Some ok \<and> output_state t = VerdictSnap ok msg)
           \<and> (\<forall>e. has_evidence e (memory s1) = has_evidence e (memory s))
           \<and> evidence_cache (memory s1) = evidence_cache (memory s)
           \<and> store (memory s1) = store (memory s)
           \<and> metaprompt s1 = metaprompt s \<and> tools s1 = tools s \<and> world s1 = world s
           \<and> cognition_engine s1 = cognition_engine s
           \<and> proposed_action p' = proposed_action p \<and> is_final_action p' = is_final_action p"
  using assms
  by (auto simp: control_def Let_def split: prod.splits sum.splits option.splits if_splits)

lemma action_effect:
  assumes "action s p = Inr (r, s1)"
  shows "(history (memory s1) = history (memory s)
          \<or> (\<exists>t. history (memory s1) = history (memory s) @ [t] \<and> module t = ''Action''))
       \<and> (\<forall>e. has_evidence e (memory s) \<longrightarrow> has_evidence e (memory s1))
       \<and> store (memory s1) = store (memory s)
       \<and> metaprompt s1 = metaprompt s \<and> tools s1 = tools s
       \<and> cognition_engine s1 = cognition_engine s"
  using assms
  by (auto simp: action_def Let_def split: prod.splits sum.splits option.splits if_splits)

lemma loop_body_cognition_count:
  assumes "loop_body s ctx = Inr (st, s')"
  shows "cognition_count (history (memory s')) = cognition_count (history (memory s)) + 1"
  using assms
  by (auto simp: loop_body_def cognition_count_def split: sum.splits prod.splits if_splits
           dest!: cognition_effect control_effect action_effect)

lemma loop_body_keeps_evidence:
  assumes "loop_body s ctx = Inr (st, s')" and "has_evidence e (memory s)"
  shows "has_evidence e (memory s')"
  using assms
  by (auto simp: loop_body_def split: sum.splits prod.splits if_splits
           dest!: cognition_effect control_effect action_effect)

lemma run_loop_invariant:
  "run_loop s ctx = Inr (ex, s') \<Longrightarrow>
     int (cognition_count (history (memory s'))) - loop_counter s'
       = int (cognition_count (history (memory s))) - loop_counter s
     \<and> loop_counter s' \<le> max (loop_counter s) (max_loops s)
     \<and> max_loops s' = max_loops s"
proof (induction s ctx arbitrary: ex s' rule: run_loop.induct)
  case (1 s ctx)
  show ?case
  proof (cases "loop_counter s < max_loops s")
    case False
    with "1.prems" show ?thesis by (simp add: run_loop.simps)
  next
    case True
    from "1.prems" True obtain st s1 where b: "loop_body s ctx = Inr (st, s1)"
      by (auto simp: run_loop.simps[of s ctx] split: sum.splits)
    note c = loop_body_counter[OF b] loop_body_cognition_count[OF b]
    show ?thesis
    proof (cases st)
      case Break
      with "1.prems" True b c show ?thesis by (auto simp: run_loop.simps[of s ctx])
    next
      case (Continue ctx')
      with "1.prems" True b have r: "run_loop s1 ctx' = Inr (ex, s')"
        by (simp add: run_loop.simps[of s ctx])
      from "1.IH"[OF True b refl Continue r] c True show ?thesis by auto
    qed
  qed
qed

lemma retrieval_effect:
  "retrieval s tsk = (pl, s1) \<Longrightarrow>
     loop_counter s1 = loop_counter s \<and> max_loops s1 = max_loops s
     \<and> cognition_count (history (memory s1)) = cognition_count (history (memory s))
     \<and> metaprompt s1 = metaprompt s \<and> cognition_engine s1 = cognition_engine s"
  by (auto simp: retrieval_def Let_def mem_write_def cognition_count_def)

lemma run_loop_last_pass_rejected:
  assumes "loop_counter s + 1 = max_loops s" and "loop_body s ctx = Inr (Continue ctx', s')"
  shows "run_loop s ctx = Inr (Exhausted, s')"
proof -
  from loop_body_counter[OF assms(2)] assms(1)
  have k: "\<not> loop_counter s' < max_loops s'" "loop_counter s < max_loops s" by auto
  have "run_loop s' ctx' = Inr (Exhausted, s')"
    by (subst run_loop.simps) (simp add: k)
  then show ?thesis
    by (subst run_loop.simps) (simp add: k assms(2))
qed

lemma action_success_stores:
  assumes "proposed_action p = Action a" and "tool_name a = Some tn" and "tn \<noteq> []"
    and "fst (call_execute (tools s) tn (get_parameters a) (world s)) = Inr r"
    and "action s p = Inr (r', s1)"
  shows "r' = r \<and> has_evidence (make_evidence_id tn (get_parameters a)) (memory s1)"
  using assms
  by (cases "call_execute (tools s) tn (get_parameters a) (world s)")
     (auto simp: action_def Let_def)

lemma passes_keeps_evidence:
  "passes n s ctx = Some (ctx', s') \<Longrightarrow> has_evidence e (memory s) \<Longrightarrow> has_evidence e (memory s')"
proof (induction n arbitrary: s ctx)
  case 0
  then show ?case by simp
next
  case (Suc n)
  from Suc.prems(1) obtain c1 s1 where b: "loop_body s ctx = Inr (Continue c1, s1)"
    and r: "passes n s1 c1 = Some (ctx', s')"
    by (auto split: if_splits sum.splits prod.splits step.splits)
  from loop_body_keeps_evidence[OF b Suc.prems(2)] Suc.IH[OF r] show ?case by simp
qed

lemma control_redundant:
  assumes "proposed_action p = Action a" and "tool_name a = Some tn" and "tn \<noteq> []"
    and "has_evidence (make_evidence_id tn (get_parameters a)) (memory s)"
  shows "\<exists>p' s'. control s p = Inr ((False, redundant_message), p', s')"
  using assms
  by (auto simp: control_def Let_def split: prod.splits)

lemma stubborn_pass:
  assumes "cognition_engine s = stubborn_engine"
    and "must_cite_stored_evidence (rules (metaprompt s))"
  shows "\<exists>s'. loop_body s ctx
           = Inr (Continue (ctx\<lparr>last_rejection := Some ''VIOLATIONS: Missing evidence citations''\<rparr>), s')"
  using assms
  by (simp add: loop_body_def cognition_def control_def validate_def issues_def
        stubborn_engine_def uncited_proposal_def Let_def)

lemma control_rejects_uncited:
  assumes "must_cite_stored_evidence (rules (metaprompt s))"
  shows "\<exists>m p' s'. control s uncited_proposal = Inr ((False, m), p', s')"
  using assms
  by (simp add: control_def validate_def issues_def uncited_proposal_def Let_def)

lemma sample_loop_fields:
  "loop_counter (sample_loop c) = 0" "max_loops (sample_loop c) = c"
  "cognition_engine (sample_loop c) = stubborn_engine"
  "metaprompt (sample_loop c) = MetaPrompt_init"
  "history (memory (sample_loop c)) = []"
  "tools (sample_loop c) = sample_registry"
  by (simp_all add: sample_loop_def StructuredCognitiveLoop_init_def Memory_init_def)

lemma run_sample_one:
  "\<exists>rep s'. run (sample_loop 1) ''plan a trip'' = Inr (Exhausted, rep, s')"
proof -
  obtain pl s1 where r: "retrieval (sample_loop 1) ''plan a trip'' = (pl, s1)"
    by (cases "retrieval (sample_loop 1) ''plan a trip''")
  note re = retrieval_effect[OF r]
  let ?ctx = "\<lparr>task = ''plan a trip'', retrieval_plan = pl, status = ''in_progress'',
                 last_rejection = None, last_action_result = None\<rparr>"
  have "cognition_engine s1 = stubborn_engine" "must_cite_stored_evidence (rules (metaprompt s1))"
    using re by (simp_all add: sample_loop_fields MetaPrompt_init_def)
  from stubborn_pass[OF this, of ?ctx] obtain s3 where
    b: "loop_body s1 ?ctx
          = Inr (Continue (?ctx\<lparr>last_rejection := Some ''VIOLATIONS: Missing evidence citations''\<rparr>), s3)"
    by blast
  have "loop_counter s1 + 1 = max_loops s1" using re by (simp add: sample_loop_fields)
  from run_loop_last_pass_rejected[OF this b] r show ?thesis by (simp add: run_def)
qed

lemma run_sample_negative:
  "run (sample_loop (- 1)) ''plan a trip'' = Inr (Exhausted, generate_audit_report (snd (retrieval (sample_loop (- 1)) ''plan a trip'')), snd (retrieval (sample_loop (- 1)) ''plan a trip''))"
  by (simp add: run_def run_loop.simps retrieval_def sample_loop_def StructuredCognitiveLoop_init_def Let_def)

lemma insistent_loop_fields:
  "cognition_engine (insistent_loop c) = insistent_engine"
  "tools (insistent_loop c) = sample_registry"
  "world (insistent_loop c) = ()"
  by (simp_all add: insistent_loop_def StructuredCognitiveLoop_init_def)

lemma call_echo:
  "call_execute sample_registry ''echo'' (JDict [(''city'', JStr ''Miami''), (''units'', JStr ''F'')]) ()
     = (Inr (JDict [(''city'', JStr ''Miami''), (''units'', JStr ''F'')]), ())"
  by (simp add: call_execute_def execute_def sample_registry_lookup echo_tool_def)

lemma insistent_action:
  "\<exists>s1. action (insistent_loop 3)
            (tool_proposal ''echo'' (JDict [(''city'', JStr ''Miami''), (''units'', JStr ''F'')]) False)
          = Inr (JDict [(''city'', JStr ''Miami''), (''units'', JStr ''F'')], s1)
        \<and> cognition_engine s1 = insistent_engine"
  by (simp add: action_def tool_proposal_def get_parameters_def insistent_loop_fields call_echo Let_def)

lemma insistent_cognition:
  assumes "cognition_engine s = insistent_engine"
  shows "\<exists>s'. cognition s ctx
           = Inr (tool_proposal ''echo'' (JDict [(''units'', JStr ''F''), (''city'', JStr ''Miami'')]) False, s')"
  using assms by (simp add: cognition_def insistent_engine_def Let_def)

subsection \<open>The evidence cache\<close>

text \<open>
  C1 (as the code has it). For an evidence identifier that is already in the cache, a
  second \<^verbatim>\<open>store_evidence\<close> replaces the cached value by the new one: the value
  read afterwards is the value just written. The keys and their order, the other
  entries, the working store and the history stay as they were. The call returns
  nothing, on a first write and on a repeated one alike.
\<close>

theorem store_evidence_overwrites:
  assumes "has_evidence eid m"
  shows "get_evidence eid (store_evidence eid v m) = Some v
       \<and> map fst (evidence_cache (store_evidence eid v m)) = map fst (evidence_cache m)
       \<and> (\<forall>k. k \<noteq> eid \<longrightarrow> get_evidence k (store_evidence eid v m) = get_evidence k m)
       \<and> store (store_evidence eid v m) = store m
       \<and> history (store_evidence eid v m) = history m"
  using assms
  by (auto simp: get_evidence_def store_evidence_def has_evidence_def update_conv' update_keys)

theorem store_evidence_overwrites_witness:
  "has_evidence ''e'' \<lparr>store = [], history = [], evidence_cache = [(''d'', JNull), (''e'', JInt 1)]\<rparr>
   \<and> get_evidence ''e'' (store_evidence ''e'' (JInt 2)
        \<lparr>store = [], history = [], evidence_cache = [(''d'', JNull), (''e'', JInt 1)]\<rparr>) = Some (JInt 2)
   \<and> get_evidence ''d'' (store_evidence ''e'' (JInt 2)
        \<lparr>store = [], history = [], evidence_cache = [(''d'', JNull), (''e'', JInt 1)]\<rparr>) = Some JNull"
proof -
  have h: "has_evidence ''e''
      \<lparr>store = [], history = [], evidence_cache = [(''d'', JNull), (''e'', JInt 1)]\<rparr>"
    by (simp add: has_evidence_def)
  show ?thesis
    using h store_evidence_overwrites [OF h, of "JInt 2"]
    by (simp add: get_evidence_def)
qed

text \<open>
  C1 as the specification states it (the second write is a no-op that keeps the first
  value) fails: after storing 2 under an identifier that held 1, the cache holds 2.
\<close>

theorem store_evidence_noop_counterexample:
  "has_evidence ''e'' \<lparr>store = [], history = [], evidence_cache = [(''e'', JInt 1)]\<rparr>
   \<and> get_evidence ''e'' (store_evidence ''e'' (JInt 2)
         \<lparr>store = [], history = [], evidence_cache = [(''e'', JInt 1)]\<rparr>)
       \<noteq> get_evidence ''e'' \<lparr>store = [], history = [], evidence_cache = [(''e'', JInt 1)]\<rparr>"
  by (simp add: get_evidence_def store_evidence_def has_evidence_def)

text \<open>
  C3. Two parameter dictionaries with the same keys bound to the same values, in any
  insertion order, give the same evidence identifier for a tool name. The Policy Gate
  and the Action stage both compute the identifier with \<open>make_evidence_id\<close>.
\<close>

theorem evidence_id_order_independent:
  assumes "distinct (map fst p)" and "distinct (map fst q)" and "map_of p = map_of q"
  shows "make_evidence_id tn (JDict p) = make_evidence_id tn (JDict q)"
  using assms by (rule evidence_id_of_equal_dicts)

theorem evidence_id_order_independent_witness:
  "distinct (map fst [(''city'', JStr ''Miami''), (''units'', JStr ''F'')])
   \<and> distinct (map fst [(''units'', JStr ''F''), (''city'', JStr ''Miami'')])
   \<and> map_of [(''city'', JStr ''Miami''), (''units'', JStr ''F'')]
       = map_of [(''units'', JStr ''F''), (''city'', JStr ''Miami'')]
   \<and> make_evidence_id ''get_weather'' (JDict [(''city'', JStr ''Miami''), (''units'', JStr ''F'')])
       = make_evidence_id ''get_weather'' (JDict [(''units'', JStr ''F''), (''city'', JStr ''Miami'')])"
proof -
  have d1: "distinct (map fst [(''city'', JStr ''Miami''), (''units'', JStr ''F'')])" by simp
  have d2: "distinct (map fst [(''units'', JStr ''F''), (''city'', JStr ''Miami'')])" by simp
  have m: "map_of [(''city'', JStr ''Miami''), (''units'', JStr ''F'')]
         = map_of [(''units'', JStr ''F''), (''city'', JStr ''Miami'')]"
    by (auto simp: fun_eq_iff)
  show ?thesis
    using d1 d2 m evidence_id_order_independent [OF d1 d2 m, of "''get_weather''"] by blast
qed

subsection \<open>The Policy Gate and finality\<close>

text \<open>
  C6. Whenever the Policy Gate returns a verdict for a proposal, the proposal it has
  evaluated (and hands on) carries the validated flag if the proposal is final, so the
  violation \<^verbatim>\<open>Final action without Control validation\<close> is not among the issues of
  the rule evaluation, and the verdict is either the redundant-call rejection or the
  result of the rule evaluation on that proposal. A non-final proposal that arrives
  with the validated flag set is left as it is, and the flag is not a violation.
\<close>

theorem control_certifies_final:
  assumes "control s p = Inr ((ok, msg), p', s')"
  shows "(is_final_action p \<longrightarrow> control_validated p')
       \<and> ''Final action without Control validation'' \<notin> set (issues (metaprompt s) p')
       \<and> (msg = redundant_message \<or> (ok, msg) = validate (metaprompt s) p')
       \<and> (\<not> is_final_action p \<and> control_validated p \<longrightarrow>
            p' = p \<and> ''Final action without Control validation'' \<notin> set (issues (metaprompt s) p))"
  using assms
  by (auto simp: control_def Let_def issues_def split: prod.splits sum.splits option.splits if_splits)

lemma control_sample_final:
  "\<exists>s'. control (sample_loop 3) (tool_proposal ''echo'' (JDict []) True)
          = Inr ((True, ''PASS''), (tool_proposal ''echo'' (JDict []) True)\<lparr>control_validated := True\<rparr>, s')"
  by (simp add: control_def sample_loop_def StructuredCognitiveLoop_init_def tool_proposal_def
        validate_def issues_def MetaPrompt_init_def Memory_init_def has_evidence_def Let_def)

theorem control_certifies_final_witness:
  "\<exists>s'. control (sample_loop 3) (tool_proposal ''echo'' (JDict []) True)
          = Inr ((True, ''PASS''), (tool_proposal ''echo'' (JDict []) True)\<lparr>control_validated := True\<rparr>, s')
        \<and> is_final_action (tool_proposal ''echo'' (JDict []) True)
        \<and> control_validated ((tool_proposal ''echo'' (JDict []) True)\<lparr>control_validated := True\<rparr>)
        \<and> ''Final action without Control validation''
             \<notin> set (issues (metaprompt (sample_loop 3))
                      ((tool_proposal ''echo'' (JDict []) True)\<lparr>control_validated := True\<rparr>))"
proof -
  obtain s' where c: "control (sample_loop 3) (tool_proposal ''echo'' (JDict []) True)
      = Inr ((True, ''PASS''), (tool_proposal ''echo'' (JDict []) True)\<lparr>control_validated := True\<rparr>, s')"
    using control_sample_final by blast
  have "is_final_action (tool_proposal ''echo'' (JDict []) True)"
    by (simp add: tool_proposal_def)
  with c control_certifies_final [OF c] show ?thesis by auto
qed

subsection \<open>The Action stage\<close>

text \<open>
  C8. When the proposal names a tool and the dispatch raises (the tool is not
  registered, the parameters cannot be passed, or the tool itself raises), the Action
  stage returns the dictionary with status \<^verbatim>\<open>error\<close> and the message, raises
  nothing, and leaves the memory (evidence cache, history, working store) unchanged.
\<close>

theorem action_wraps_errors:
  assumes "proposed_action p = Action a" and "tool_name a = Some tn" and "tn \<noteq> []"
    and "map_of (tools s) tn = None
         \<or> fst (call_execute (tools s) tn (get_parameters a) (world s)) = Inl e0"
  shows "\<exists>e w'. call_execute (tools s) tn (get_parameters a) (world s) = (Inl e, w')
              \<and> action s p = Inr (error_result e, s\<lparr>world := w'\<rparr>)
              \<and> error_result e = JDict [(''status'', JStr ''error''),
                    (''message'', JStr (''Action execution failed: '' @ str_of_error e))]
              \<and> memory (s\<lparr>world := w'\<rparr>) = memory s"
proof -
  have "\<exists>e w'. call_execute (tools s) tn (get_parameters a) (world s) = (Inl e, w')"
    using assms(4)
    by (cases "call_execute (tools s) tn (get_parameters a) (world s)")
       (auto simp: call_execute_def execute_def split: json.splits list.splits)
  then obtain e w' where c: "call_execute (tools s) tn (get_parameters a) (world s) = (Inl e, w')"
    by blast
  then have "action s p = Inr (error_result e, s\<lparr>world := w'\<rparr>)"
    using assms(1-3) by (simp add: action_def)
  with c show ?thesis by (auto simp: error_result_def)
qed

theorem action_wraps_errors_witness:
  "map_of (tools (sample_loop 3)) ''missing'' = None
   \<and> action (sample_loop 3) (tool_proposal ''missing'' (JDict []) False)
       = Inr (JDict [(''status'', JStr ''error''),
                     (''message'', JStr (''Action execution failed: Tool '' @ [CHR 0x27] @ ''missing''
                                          @ [CHR 0x27] @ '' not registered''))],
              sample_loop 3)
   \<and> fst (call_execute (tools (sample_loop 3)) ''fail'' (JDict []) (world (sample_loop 3)))
       = Inl (Exception ''service unavailable'')
   \<and> action (sample_loop 3) (tool_proposal ''fail'' (JDict []) False)
       = Inr (JDict [(''status'', JStr ''error''),
                     (''message'', JStr ''Action execution failed: service unavailable'')],
              sample_loop 3)"
proof -
  let ?s = "sample_loop 3"
  have t: "tools ?s = sample_registry"
    by (simp add: sample_loop_def StructuredCognitiveLoop_init_def)
  have w: "?s\<lparr>world := ()\<rparr> = ?s" by simp
  have m: "map_of (tools ?s) ''missing'' = None"
    by (simp add: t sample_registry_lookup)
  have cm: "call_execute (tools ?s) ''missing'' (JDict []) (world ?s)
      = (Inl (ValueError (''Tool '' @ [CHR 0x27] @ ''missing'' @ [CHR 0x27] @ '' not registered'')), ())"
    by (simp add: call_execute_def execute_def t sample_registry_lookup)
  have cf: "call_execute (tools ?s) ''fail'' (JDict []) (world ?s)
      = (Inl (Exception ''service unavailable''), ())"
    by (simp add: call_execute_def execute_def t sample_registry_lookup failing_tool_def)
  have a1: "action ?s (tool_proposal ''missing'' (JDict []) False)
      = Inr (error_result (ValueError (''Tool '' @ [CHR 0x27] @ ''missing'' @ [CHR 0x27] @ '' not registered'')), ?s)"
    using action_wraps_errors [of "tool_proposal ''missing'' (JDict []) False"
        "\<lparr>tool_name = Some ''missing'', parameters = Some (JDict [])\<rparr>" "''missing''" ?s "Exception []"]
      m cm w
    by (simp add: tool_proposal_def get_parameters_def)
  have a2: "action ?s (tool_proposal ''fail'' (JDict []) False)
      = Inr (error_result (Exception ''service unavailable''), ?s)"
    using action_wraps_errors [of "tool_proposal ''fail'' (JDict []) False"
        "\<lparr>tool_name = Some ''fail'', parameters = Some (JDict [])\<rparr>" "''fail''" ?s
        "Exception ''service unavailable''"]
      cf w
    by (simp add: tool_proposal_def get_parameters_def)
  show ?thesis
    using m cf a1 a2 by (simp add: error_result_def)
qed

text \<open>
  C2 (as the code has it). When the proposal names a tool and the dispatch succeeds,
  the Action stage returns the tool result, stores it in the evidence cache under the
  evidence identifier of the tool name and the parameters, and appends one Action trace
  that records the result and the identifier. The working-memory store is not written.
\<close>

theorem action_stores_evidence:
  assumes "proposed_action p = Action a" and "tool_name a = Some tn" and "tn \<noteq> []"
    and "call_execute (tools s) tn (get_parameters a) (world s) = (Inr result, w')"
  shows "\<exists>s' t. action s p = Inr (result, s')
            \<and> get_evidence (make_evidence_id tn (get_parameters a)) (memory s') = Some result
            \<and> history (memory s') = history (memory s) @ [t]
            \<and> module t = ''Action''
            \<and> output_state t = ResultSnap result (make_evidence_id tn (get_parameters a))
            \<and> store (memory s') = store (memory s)"
  using assms
  by (simp add: action_def Let_def get_evidence_def store_evidence_def log_trace_def update_conv')

lemma call_echo_sample:
  "call_execute (tools (sample_loop 3)) ''echo'' (JDict [(''city'', JStr ''Miami'')]) (world (sample_loop 3))
     = (Inr (JDict [(''city'', JStr ''Miami'')]), ())"
  by (simp add: call_execute_def execute_def sample_loop_def StructuredCognitiveLoop_init_def
        sample_registry_lookup echo_tool_def)

theorem action_stores_evidence_witness:
  "call_execute (tools (sample_loop 3)) ''echo'' (JDict [(''city'', JStr ''Miami'')]) (world (sample_loop 3))
     = (Inr (JDict [(''city'', JStr ''Miami'')]), ())
   \<and> (\<exists>s'. action (sample_loop 3) (tool_proposal ''echo'' (JDict [(''city'', JStr ''Miami'')]) False)
             = Inr (JDict [(''city'', JStr ''Miami'')], s')
         \<and> get_evidence (make_evidence_id ''echo'' (JDict [(''city'', JStr ''Miami'')])) (memory s')
             = Some (JDict [(''city'', JStr ''Miami'')])
         \<and> length (history (memory s')) = 1
         \<and> store (memory s') = [])"
proof -
  let ?s = "sample_loop 3"
  have m: "history (memory ?s) = [] \<and> store (memory ?s) = []"
    by (simp add: sample_loop_def StructuredCognitiveLoop_init_def Memory_init_def)
  show ?thesis
    using call_echo_sample m
      action_stores_evidence [of "tool_proposal ''echo'' (JDict [(''city'', JStr ''Miami'')]) False"
        "\<lparr>tool_name = Some ''echo'', parameters = Some (JDict [(''city'', JStr ''Miami'')])\<rparr>"
        "''echo''" ?s "JDict [(''city'', JStr ''Miami'')]" "()"]
    by (auto simp: tool_proposal_def get_parameters_def)
qed

text \<open>
  C2 as the specification states it (the result is also stored as a working-memory
  value, readable via \<^verbatim>\<open>read\<close>) fails: after a successful action on a fresh
  orchestrator the result is in the evidence cache and the working store is empty.
\<close>

theorem action_working_memory_counterexample:
  "action (sample_loop 3) (tool_proposal ''echo'' (JDict [(''city'', JStr ''Miami'')]) False)
     = Inr (JDict [(''city'', JStr ''Miami'')],
            (sample_loop 3)
              \<lparr>memory :=
                 \<lparr>store = [],
                  history =
                    [\<lparr>loop_id = ''ACT-000'', module = ''Action'',
                      input_state = ActionSnap
                        \<lparr>tool_name = Some ''echo'', parameters = Some (JDict [(''city'', JStr ''Miami'')])\<rparr>,
                      output_state = ResultSnap (JDict [(''city'', JStr ''Miami'')])
                        (make_evidence_id ''echo'' (JDict [(''city'', JStr ''Miami'')])),
                      decision = None, validation_result = None, trace_evidence_refs = None\<rparr>],
                  evidence_cache =
                    [(make_evidence_id ''echo'' (JDict [(''city'', JStr ''Miami'')]),
                      JDict [(''city'', JStr ''Miami'')])]\<rparr>\<rparr>)
   \<and> read ''last_action_result'' \<lparr>store = [], history = [], evidence_cache = []\<rparr> = None"
  using call_echo_sample
  by (simp add: action_def tool_proposal_def get_parameters_def Let_def sample_loop_def
        StructuredCognitiveLoop_init_def Memory_init_def store_evidence_def log_trace_def
        fmt_03d_small read_def)

subsection \<open>The decision of the mock engine\<close>

text \<open>
  C9. For the collected records San Francisco 60, Miami 75, Atlanta 50 (whatever their
  condition and precipitation chance) and the threshold 55, the cities above the
  threshold are San Francisco and Miami, the cooler of the two is San Francisco, and the
  decision is the final proposal that calls \<^verbatim>\<open>send_email\<close> with San Francisco in
  the subject and the body, and names San Francisco as the destination.
\<close>

theorem scenario_two_above_threshold:
  "(let sf = \<lparr>city = ''San Francisco'', temperature_f = 60, condition = c1, precipitation_chance = r1\<rparr>;
        mi = \<lparr>city = ''Miami'', temperature_f = 75, condition = c2, precipitation_chance = r2\<rparr>;
        atl = \<lparr>city = ''Atlanta'', temperature_f = 50, condition = c3, precipitation_chance = r3\<rparr>;
        above = filter (\<lambda>w. temperature_f w > 55) [sf, mi, atl]
    in map city above = [''San Francisco'', ''Miami'']
     \<and> min_by temperature_f above = Inr sf
     \<and> generate_decision [sf, mi, atl] 55 =
         Inr \<lparr>proposed_action = Action
                \<lparr>tool_name = Some ''send_email'',
                 parameters = Some (JDict
                   [(''recipient'', JStr ''test-scl@test.com''),
                    (''subject'', JStr ''Travel Plan Confirmed: San Francisco''),
                    (''body'', JStr (''Based on weather analysis, traveling to San Francisco. Temperature: 60''
                       @ [CHR 0xB0] @ ''F, Condition: '' @ c1 @ ''. '' @ umbrella_text sf @ ''.''))])\<rparr>,
              evidence_refs = Some [''weather_sf'', ''weather_miami'', ''weather_atlanta''],
              is_final_action = True,
              control_validated = False,
              extras = [(''decision_branch'', JStr ''two_above_threshold''),
                        (''destination'', JStr ''San Francisco''),
                        (''umbrella_needed'', JBool (umbrella_needed sf))]\<rparr>)"
  by (simp add: Let_def generate_decision_def degrees_f_def show_int_60 weather_refs_def)

subsection \<open>The iteration counter\<close>

text \<open>
  C4 (as the code has it). For every run that returns a report, started on an
  orchestrator whose counter equals the number of Cognition traces in its history (a
  fresh orchestrator: both are zero), \<^verbatim>\<open>summary.total_loops\<close> equals the number of
  Cognition-stage trace records in the log, and it does not exceed the larger of the
  counter at the start and the ceiling \<^verbatim>\<open>max_loops\<close>: on a fresh orchestrator it
  never exceeds a non-negative ceiling. The same relation between the counter and the
  history holds again after the run.
\<close>

theorem total_loops_counts_cognition:
  assumes "run s tsk = Inr (ex, rep, s')"
    and "loop_counter s = int (cognition_count (history (memory s)))"
  shows "total_loops (report_summary rep) = int (cognition_count (log rep))
       \<and> total_loops (report_summary rep) \<le> max (loop_counter s) (max_loops s)
       \<and> loop_counter s' = int (cognition_count (history (memory s')))"
proof -
  obtain pl s1 where r: "retrieval s tsk = (pl, s1)" by (cases "retrieval s tsk")
  let ?ctx = "\<lparr>task = tsk, retrieval_plan = pl, status = ''in_progress'',
                 last_rejection = None, last_action_result = None\<rparr>"
  from assms(1) r have l: "run_loop s1 ?ctx = Inr (ex, s')"
    and rep: "rep = generate_audit_report s'"
    by (auto simp: run_def split: sum.splits)
  from run_loop_invariant[OF l] retrieval_effect[OF r] assms(2) rep
  show ?thesis by (auto simp: generate_audit_report_def)
qed

theorem total_loops_counts_cognition_witness:
  "loop_counter (sample_loop 1) = int (cognition_count (history (memory (sample_loop 1))))
   \<and> (\<exists>rep s'. run (sample_loop 1) ''plan a trip'' = Inr (Exhausted, rep, s')
         \<and> total_loops (report_summary rep) = int (cognition_count (log rep))
         \<and> total_loops (report_summary rep) \<le> max_loops (sample_loop 1))"
proof -
  have h: "loop_counter (sample_loop 1) = int (cognition_count (history (memory (sample_loop 1))))"
    by (simp add: sample_loop_fields cognition_count_def)
  obtain rep s' where r: "run (sample_loop 1) ''plan a trip'' = Inr (Exhausted, rep, s')"
    using run_sample_one by blast
  from total_loops_counts_cognition[OF r h] h r show ?thesis
    by (auto simp: sample_loop_fields)
qed

text \<open>
  C4 as the specification states it (the count never exceeds the configured ceiling)
  fails for a negative ceiling: with \<^verbatim>\<open>max_loops = -1\<close> the loop body never runs,
  the report has \<^verbatim>\<open>total_loops = 0\<close>, and 0 exceeds the ceiling.
\<close>

theorem total_loops_ceiling_counterexample:
  "map_sum id (total_loops \<circ> report_summary \<circ> fst \<circ> snd) (run (sample_loop (- 1)) ''plan a trip'') = Inr 0
   \<and> max_loops (sample_loop (- 1)) = - 1
   \<and> \<not> (0 :: int) \<le> - 1"
  by (subst run_sample_negative)
     (simp add: generate_audit_report_def retrieval_def Let_def sample_loop_def
        StructuredCognitiveLoop_init_def)

text \<open>
  C7. On an orchestrator with counter 0 and ceiling 1, with a decision-maker that always
  returns a non-final proposal which the Policy Gate (with this rule set, in any state)
  rejects, \<^verbatim>\<open>run\<close> returns a report: the loop is left because its condition
  fails, not through the completion \<^verbatim>\<open>break\<close>, and \<^verbatim>\<open>total_loops\<close> is 1.
\<close>

theorem budget_exhaustion:
  fixes s :: "'w StructuredCognitiveLoop"
  assumes "loop_counter s = 0" and "max_loops s = 1"
    and "\<And>pr c w. \<exists>p w'. cognition_engine s pr c w = (Inr p, w') \<and> \<not> is_final_action p
            \<and> (\<forall>s1 :: 'w StructuredCognitiveLoop. metaprompt s1 = metaprompt s \<longrightarrow>
                  (\<exists>m p' s2. control s1 p = Inr ((False, m), p', s2)))"
  shows "\<exists>rep s'. run s tsk = Inr (Exhausted, rep, s')
           \<and> total_loops (report_summary rep) = 1"
proof -
  obtain pl s1 where r: "retrieval s tsk = (pl, s1)" by (cases "retrieval s tsk")
  note re = retrieval_effect[OF r]
  define ctx where "ctx = \<lparr>task = tsk, retrieval_plan = pl, status = ''in_progress'',
                 last_rejection = None, last_action_result = None\<rparr>"
  define pr where "pr = \<lparr>prompt_instructions = instructions (metaprompt (s1\<lparr>loop_counter := loop_counter s1 + 1\<rparr>)),
             prompt_state = get_state_summary (memory (s1\<lparr>loop_counter := loop_counter s1 + 1\<rparr>)),
             prompt_tools = get_tool_descriptions (tools (s1\<lparr>loop_counter := loop_counter s1 + 1\<rparr>)),
             prompt_context = ctx\<rparr>"
  from assms(3)[of pr ctx "world s1"]
  obtain p w' where e0: "cognition_engine s pr ctx (world s1) = (Inr p, w')"
    and nf: "\<not> is_final_action p"
    and rej: "\<forall>s1 :: 'w StructuredCognitiveLoop. metaprompt s1 = metaprompt s
                \<longrightarrow> (\<exists>m p' s2. control s1 p = Inr ((False, m), p', s2))"
    by blast
  from e0 re have e: "cognition_engine s1 pr ctx (world s1) = (Inr p, w')" by simp
  obtain s2 where c: "cognition s1 ctx = Inr (p, s2)"
    using e by (simp add: cognition_def Let_def pr_def)
  from cognition_effect[OF c] re have "metaprompt s2 = metaprompt s" by simp
  with rej obtain m p' s3 where ctl: "control s2 p = Inr ((False, m), p', s3)" by blast
  from c ctl have b: "loop_body s1 ctx = Inr (Continue (ctx\<lparr>last_rejection := Some m\<rparr>), s3)"
    by (simp add: loop_body_def)
  from re assms(1,2) have "loop_counter s1 + 1 = max_loops s1" by simp
  from run_loop_last_pass_rejected[OF this b] have l: "run_loop s1 ctx = Inr (Exhausted, s3)" .
  from loop_body_counter[OF b] re assms(1) have "loop_counter s3 = 1" by simp
  with r l show ?thesis by (simp add: run_def generate_audit_report_def ctx_def)
qed

theorem budget_exhaustion_witness:
  "loop_counter (sample_loop 1) = 0 \<and> max_loops (sample_loop 1) = 1
   \<and> (\<exists>rep s'. run (sample_loop 1) ''plan a trip'' = Inr (Exhausted, rep, s')
         \<and> total_loops (report_summary rep) = 1)"
proof -
  have e: "\<And>pr c w. \<exists>p w'. cognition_engine (sample_loop 1) pr c w = (Inr p, w')
            \<and> \<not> is_final_action p
            \<and> (\<forall>s1 :: unit StructuredCognitiveLoop. metaprompt s1 = metaprompt (sample_loop 1) \<longrightarrow>
                  (\<exists>m p' s2. control s1 p = Inr ((False, m), p', s2)))"
  proof -
    fix pr c w
    have "cognition_engine (sample_loop 1) pr c w = (Inr uncited_proposal, w)"
      by (simp add: sample_loop_fields stubborn_engine_def)
    moreover have "\<not> is_final_action uncited_proposal" by (simp add: uncited_proposal_def)
    moreover have "\<forall>s1 :: unit StructuredCognitiveLoop. metaprompt s1 = metaprompt (sample_loop 1) \<longrightarrow>
                  (\<exists>m p' s2. control s1 uncited_proposal = Inr ((False, m), p', s2))"
      by (auto intro!: control_rejects_uncited simp: sample_loop_fields MetaPrompt_init_def)
    ultimately show "\<exists>p w'. cognition_engine (sample_loop 1) pr c w = (Inr p, w')
            \<and> \<not> is_final_action p
            \<and> (\<forall>s1 :: unit StructuredCognitiveLoop. metaprompt s1 = metaprompt (sample_loop 1) \<longrightarrow>
                  (\<exists>m p' s2. control s1 p = Inr ((False, m), p', s2)))"
      by blast
  qed
  have c: "loop_counter (sample_loop 1) = 0" and m: "max_loops (sample_loop 1) = 1"
    by (simp_all add: sample_loop_fields)
  from budget_exhaustion[OF c m e, of "''plan a trip''"] c m show ?thesis by simp
qed

subsection \<open>Redundant tool calls\<close>

text \<open>
  C5. Let a proposal with tool name \<open>tn\<close> and parameter dictionary \<open>P0\<close> be executed
  by the Action stage with a successful dispatch (so that its evidence identifier is
  stored), and let any number of further passes through the loop body follow. If the
  decision-maker then proposes the tool \<open>tn\<close> with a dictionary \<open>P\<close> that binds the same
  keys to the same values, the Policy Gate rejects the proposal with the redundant-call
  message, and the pass ends with the state the Policy Gate left: the Control trace is
  the last trace, the evidence cache and the outside state are as before the gate, so no
  action ran.
\<close>

theorem redundant_call_rejected:
  assumes "proposed_action p0 = Action a0" and "tool_name a0 = Some tn" and "tn \<noteq> []"
    and "get_parameters a0 = JDict P0"
    and "fst (call_execute (tools s0) tn (JDict P0) (world s0)) = Inr r"
    and "action s0 p0 = Inr (r', s1)"
    and "passes n s1 ctx1 = Some (ctx2, s2)"
    and "cognition s2 ctx2 = Inr (p, s3)"
    and "proposed_action p = Action a" and "tool_name a = Some tn"
    and "get_parameters a = JDict P"
    and "distinct (map fst P0)" and "distinct (map fst P)" and "map_of P = map_of P0"
  shows "\<exists>p' s4 t. control s3 p = Inr ((False, redundant_message), p', s4)
           \<and> loop_body s2 ctx2 = Inr (Continue (ctx2\<lparr>last_rejection := Some redundant_message\<rparr>), s4)
           \<and> history (memory s4) = history (memory s3) @ [t]
           \<and> module t = ''Control'' \<and> validation_result t = Some False
           \<and> evidence_cache (memory s4) = evidence_cache (memory s3)
           \<and> world s4 = world s3"
proof -
  let ?id = "make_evidence_id tn (JDict P0)"
  have "has_evidence ?id (memory s1)"
    using action_success_stores[OF assms(1-3) _ assms(6), of r] assms(4,5) by simp
  then have "has_evidence ?id (memory s2)"
    by (rule passes_keeps_evidence[OF assms(7)])
  then have "has_evidence ?id (memory s3)"
    using cognition_effect[OF assms(8)] by simp
  moreover have "make_evidence_id tn (get_parameters a) = ?id"
    using evidence_id_of_equal_dicts[OF assms(13,12,14)] assms(11) by simp
  ultimately have "has_evidence (make_evidence_id tn (get_parameters a)) (memory s3)"
    by simp
  from control_redundant[OF assms(9,10,3) this]
  obtain p' s4 where c: "control s3 p = Inr ((False, redundant_message), p', s4)"
    by blast
  from assms(8) c have "loop_body s2 ctx2
      = Inr (Continue (ctx2\<lparr>last_rejection := Some redundant_message\<rparr>), s4)"
    by (simp add: loop_body_def)
  with c control_effect[OF c] show ?thesis by auto
qed

theorem redundant_call_rejected_witness:
  "\<exists>s1 s3 s4 p'.
      action (insistent_loop 3)
        (tool_proposal ''echo'' (JDict [(''city'', JStr ''Miami''), (''units'', JStr ''F'')]) False)
        = Inr (JDict [(''city'', JStr ''Miami''), (''units'', JStr ''F'')], s1)
    \<and> passes 0 s1 sample_context = Some (sample_context, s1)
    \<and> cognition s1 sample_context
        = Inr (tool_proposal ''echo'' (JDict [(''units'', JStr ''F''), (''city'', JStr ''Miami'')]) False, s3)
    \<and> control s3 (tool_proposal ''echo'' (JDict [(''units'', JStr ''F''), (''city'', JStr ''Miami'')]) False)
        = Inr ((False, redundant_message), p', s4)
    \<and> loop_body s1 sample_context
        = Inr (Continue (sample_context\<lparr>last_rejection := Some redundant_message\<rparr>), s4)"
proof -
  let ?first = "[(''city'', JStr ''Miami''), (''units'', JStr ''F'')]"
  let ?again = "[(''units'', JStr ''F''), (''city'', JStr ''Miami'')]"
  let ?da = "\<lparr>tool_name = Some ''echo'', parameters = Some (JDict ?first)\<rparr>"
  let ?db = "\<lparr>tool_name = Some ''echo'', parameters = Some (JDict ?again)\<rparr>"
  obtain s1 where a: "action (insistent_loop 3) (tool_proposal ''echo'' (JDict ?first) False)
      = Inr (JDict ?first, s1)" and e: "cognition_engine s1 = insistent_engine"
    using insistent_action by blast
  obtain s3 where c: "cognition s1 sample_context = Inr (tool_proposal ''echo'' (JDict ?again) False, s3)"
    using insistent_cognition[OF e] by blast
  have ps: "passes 0 s1 sample_context = Some (sample_context, s1)" by simp
  have h1: "proposed_action (tool_proposal ''echo'' (JDict ?first) False) = Action ?da"
    and h2: "tool_name ?da = Some ''echo''" and h3: "''echo'' \<noteq> []"
    and h4: "get_parameters ?da = JDict ?first"
    and h9: "proposed_action (tool_proposal ''echo'' (JDict ?again) False) = Action ?db"
    and h10: "tool_name ?db = Some ''echo''"
    and h11: "get_parameters ?db = JDict ?again"
    by (simp_all add: tool_proposal_def get_parameters_def)
  have h5: "fst (call_execute (tools (insistent_loop 3)) ''echo'' (JDict ?first) (world (insistent_loop 3)))
      = Inr (JDict ?first)"
    by (simp add: insistent_loop_fields call_echo)
  have d0: "distinct (map fst ?first)" and d: "distinct (map fst ?again)" by simp_all
  have m: "map_of ?again = map_of ?first" by (auto simp: fun_eq_iff)
  from redundant_call_rejected[OF h1 h2 h3 h4 h5 a ps c h9 h10 h11 d0 d m] a ps c
  show ?thesis by blast
qed

subsection \<open>What the verdict depends on\<close>

text \<open>
  C10. For a proposal whose action descriptor can be read, the Policy Gate returns a
  verdict that is fixed by three facts: whether the evidence identifier of a named tool
  is cached (then the redundant-call rejection), otherwise whether the cited evidence is
  empty while \<^verbatim>\<open>must_cite_stored_evidence\<close> is on (then the citation violation),
  otherwise approval. \<^verbatim>\<open>MetaPrompt.validate\<close> itself fails exactly on missing
  citations and on a final proposal without the validated flag. Replacing the rule set
  by any other with the same \<^verbatim>\<open>must_cite_stored_evidence\<close> entry changes nothing
  in the outcome: \<^verbatim>\<open>single_final_action\<close>, \<^verbatim>\<open>validate_conditional_branches\<close>
  and \<^verbatim>\<open>avoid_redundant_tool_calls\<close> are never consulted, and the redundant-call
  rejection does not depend on the latter.
\<close>

theorem control_verdict_inputs:
  assumes "get_proposed_action (proposed_action p) = Inr a"
  shows "(\<exists>p' s'. control s p = Inr
            ((if (\<exists>tn. tool_name a = Some tn \<and> tn \<noteq> []
                       \<and> has_evidence (make_evidence_id tn (get_parameters a)) (memory s))
              then (False, redundant_message)
              else if must_cite_stored_evidence (rules (metaprompt s)) \<and> \<not> truthy_refs (evidence_refs p)
              then (False, ''VIOLATIONS: Missing evidence citations'')
              else (True, ''PASS'')), p', s'))
       \<and> fst (validate (metaprompt s) p)
           = (\<not> (must_cite_stored_evidence (rules (metaprompt s)) \<and> \<not> truthy_refs (evidence_refs p))
              \<and> \<not> (is_final_action p \<and> \<not> control_validated p))
       \<and> (\<forall>r'. must_cite_stored_evidence r' = must_cite_stored_evidence (rules (metaprompt s)) \<longrightarrow>
             map_sum id fst (control (s\<lparr>metaprompt := (metaprompt s)\<lparr>rules := r'\<rparr>\<rparr>) p)
               = map_sum id fst (control s p))"
  using assms
  by (auto simp: control_def validate_def issues_def Let_def split: option.splits)

theorem control_verdict_inputs_witness:
  "get_proposed_action (proposed_action (tool_proposal ''echo'' (JDict []) False))
     = Inr \<lparr>tool_name = Some ''echo'', parameters = Some (JDict [])\<rparr>
   \<and> \<not> avoid_redundant_tool_calls (rules (metaprompt
         ((sample_loop 3)
            \<lparr>metaprompt := MetaPrompt_init\<lparr>rules := (rules MetaPrompt_init)\<lparr>avoid_redundant_tool_calls := False\<rparr>\<rparr>,
             memory := store_evidence (make_evidence_id ''echo'' (JDict [])) JNull Memory_init\<rparr>)))
   \<and> (\<exists>p' s'. control
         ((sample_loop 3)
            \<lparr>metaprompt := MetaPrompt_init\<lparr>rules := (rules MetaPrompt_init)\<lparr>avoid_redundant_tool_calls := False\<rparr>\<rparr>,
             memory := store_evidence (make_evidence_id ''echo'' (JDict [])) JNull Memory_init\<rparr>)
         (tool_proposal ''echo'' (JDict []) False)
        = Inr ((False, redundant_message), p', s'))"
proof -
  let ?s = "(sample_loop 3)
            \<lparr>metaprompt := MetaPrompt_init\<lparr>rules := (rules MetaPrompt_init)\<lparr>avoid_redundant_tool_calls := False\<rparr>\<rparr>,
             memory := store_evidence (make_evidence_id ''echo'' (JDict [])) JNull Memory_init\<rparr>"
  let ?db = "\<lparr>tool_name = Some ''echo'', parameters = Some (JDict [])\<rparr>"
  have g: "get_proposed_action (proposed_action (tool_proposal ''echo'' (JDict []) False)) = Inr ?db"
    by (simp add: tool_proposal_def)
  have c: "\<exists>tn. tool_name ?db = Some tn \<and> tn \<noteq> []
              \<and> has_evidence (make_evidence_id tn (get_parameters ?db)) (memory ?s)"
    by (simp add: get_parameters_def)
  have f: "\<not> avoid_redundant_tool_calls (rules (metaprompt ?s))" by simp
  from control_verdict_inputs[OF g, of ?s] c g f show ?thesis by auto
qed

end
